theory Spec2Isabelle
  imports Complex_Main "HOL-Library.Sublist"
begin

section \<open>TracerCatalog: the survey-geometry data source of nbodykit\<close>

text \<open>
  A shallow embedding of \<^verbatim>\<open>nbodykit/plugins/datasource/TracerCatalog.py\<close>.

  A finite float64 is a real number; \<open>f64\<close> adds the values \<open>inf\<close>, \<open>-inf\<close> and
  \<open>nan\<close>, which numpy produces with a warning and without an exception. The data that
  come in (coordinates, weights, configuration values) are finite.

  The float64 operations round, and what they return decides bin counts, integer
  conversions and divisions by zero. They are not defined here: the functions of the
  model take the arithmetic of the machine as an argument, a record \<open>arith\<close> of the
  operations, and every theorem holds for every such arithmetic. What float64 does
  exactly is defined: comparisons, \<open>ceil\<close>, \<open>abs\<close>, the conversion to int64, minimum
  and maximum. The projection \<^verbatim>\<open>_to_cartesian\<close> and the offset, whose values
  only flow to the output, are read over the real numbers.

  Python exceptions are values of type \<open>failure\<close>, carrying the message of the source.
  The cosmology (\<^verbatim>\<open>self.cosmo.comoving_distance\<close>) and scipy's
  \<^verbatim>\<open>InterpolatedUnivariateSpline\<close> are not part of the file: they are functions
  the model takes as they come.
\<close>

subsection \<open>Data\<close>

type_synonym vec3 = "real \<times> real \<times> real"

datatype failure =
    ValueError string
  | NotImplementedError string
  | NameError string
  | TypeError string
  | AttributeError string
  | KeyError string
  | ArangeError
  | NonFinite

text \<open>\<^verbatim>\<open>cosmo.comoving_distance\<close>, applied elementwise.\<close>
type_synonym cosmology = "real \<Rightarrow> real"

subsection \<open>float64\<close>

datatype f64 = Finite real | PosInf | NegInf | NaN

text \<open>The comparisons \<^verbatim>\<open><=\<close> and \<^verbatim>\<open><\<close>: false whenever an operand is \<open>nan\<close>.\<close>
fun f64_le :: "f64 \<Rightarrow> f64 \<Rightarrow> bool" where
  "f64_le (Finite a) (Finite b) = (a \<le> b)"
| "f64_le NaN y = False"
| "f64_le x NaN = False"
| "f64_le NegInf y = True"
| "f64_le x PosInf = True"
| "f64_le x y = False"

fun f64_lt :: "f64 \<Rightarrow> f64 \<Rightarrow> bool" where
  "f64_lt (Finite a) (Finite b) = (a < b)"
| "f64_lt NaN y = False"
| "f64_lt x NaN = False"
| "f64_lt PosInf y = False"
| "f64_lt x NegInf = False"
| "f64_lt x y = True"

text \<open>\<^verbatim>\<open>numpy.ceil\<close> and \<^verbatim>\<open>abs\<close>.\<close>
fun f64_ceil :: "f64 \<Rightarrow> f64" where
  "f64_ceil (Finite x) = Finite (of_int \<lceil>x\<rceil>)"
| "f64_ceil x = x"

fun f64_abs :: "f64 \<Rightarrow> f64" where
  "f64_abs (Finite x) = Finite \<bar>x\<bar>"
| "f64_abs NaN = NaN"
| "f64_abs x = PosInf"

text \<open>
  Python's \<^verbatim>\<open>max(1, x)\<close>: it keeps \<open>1\<close> unless \<^verbatim>\<open>x > 1\<close>, so also when \<open>x\<close>
  is \<open>nan\<close>.
\<close>
definition py_max1 :: "f64 \<Rightarrow> f64" where
  "py_max1 x = (if f64_lt (Finite 1) x then x else Finite 1)"

text \<open>
  \<^verbatim>\<open>ndarray.astype(int)\<close> on a float64: the fraction is dropped (towards zero);
  what does not fit into an int64, and \<open>inf\<close> and \<open>nan\<close>, becomes the least int64.
\<close>
definition trunc :: "real \<Rightarrow> int" where
  "trunc x = (if 0 \<le> x then \<lfloor>x\<rfloor> else \<lceil>x\<rceil>)"

fun astype_int :: "f64 \<Rightarrow> int" where
  "astype_int (Finite x) =
     (if - (2 ^ 63) \<le> trunc x \<and> trunc x < 2 ^ 63 then trunc x else - (2 ^ 63))"
| "astype_int x = - (2 ^ 63)"

text \<open>
  The operations that round: \<^verbatim>\<open>+\<close>, \<^verbatim>\<open>-\<close>, \<^verbatim>\<open>*\<close>, \<^verbatim>\<open>/\<close> and
  \<^verbatim>\<open>**\<close> on float64, \<^verbatim>\<open>numpy.std\<close> of an array, and the constant
  \<^verbatim>\<open>numpy.pi\<close>.
\<close>
record arith =
  fadd :: "f64 \<Rightarrow> f64 \<Rightarrow> f64"
  fsub :: "f64 \<Rightarrow> f64 \<Rightarrow> f64"
  fmul :: "f64 \<Rightarrow> f64 \<Rightarrow> f64"
  fdiv :: "f64 \<Rightarrow> f64 \<Rightarrow> f64"
  fpow :: "f64 \<Rightarrow> f64 \<Rightarrow> f64"
  fstd :: "real list \<Rightarrow> f64"
  fpi :: f64

text \<open>
  The cosmology on an array of float64: it is given on finite redshifts; on \<open>inf\<close> and
  \<open>nan\<close> the model takes \<open>nan\<close>.
\<close>
fun at_f64 :: "cosmology \<Rightarrow> f64 \<Rightarrow> f64" where
  "at_f64 comoving_distance (Finite s) = Finite (comoving_distance s)"
| "at_f64 comoving_distance x = NaN"

subsection \<open>\<^verbatim>\<open>_to_cartesian\<close>\<close>

text \<open>
  \<^verbatim>\<open>
  def _to_cartesian(self, coords, translate=[0.,0.,0.]):
      ra, dec, redshift = coords.T
      r = self.cosmo.comoving_distance(redshift)
      x = r*numpy.cos(ra)*numpy.cos(dec)
      y = r*numpy.sin(ra)*numpy.cos(dec)
      z = r*numpy.sin(dec)
      return numpy.vstack([x,y,z]).T + translate
  \<close>
  The columns are taken apart, each output column is computed elementwise, and the three
  columns are stacked into rows again; \<open>translate\<close> is broadcast over the rows.
\<close>

definition vstack_T :: "real list \<Rightarrow> real list \<Rightarrow> real list \<Rightarrow> vec3 list" where
  "vstack_T xs ys zs = zip xs (zip ys zs)"

definition to_cartesian :: "cosmology \<Rightarrow> vec3 list \<Rightarrow> vec3 \<Rightarrow> vec3 list" where
  "to_cartesian comoving_distance coords translate =
     (let ra = map (\<lambda>(a, d, s). a) coords;
          dec = map (\<lambda>(a, d, s). d) coords;
          redshift = map (\<lambda>(a, d, s). s) coords;
          r = map comoving_distance redshift;
          x = map (\<lambda>(r, a, d). r * cos a * cos d) (zip r (zip ra dec));
          y = map (\<lambda>(r, a, d). r * sin a * cos d) (zip r (zip ra dec));
          z = map (\<lambda>(r, d). r * sin d) (zip r dec)
      in map (\<lambda>(px, py, pz). case translate of (tx, ty, tz) \<Rightarrow> (px + tx, py + ty, pz + tz))
           (vstack_T x y z))"

text \<open>The default \<^verbatim>\<open>translate=[0.,0.,0.]\<close>.\<close>
definition no_translate :: vec3 where
  "no_translate = (0, 0, 0)"

text \<open>One row of the projection, as the spec writes it.\<close>
definition project_row :: "cosmology \<Rightarrow> vec3 \<Rightarrow> vec3 \<Rightarrow> vec3" where
  "project_row comoving_distance translate row =
     (case row of (ra, dec, redshift) \<Rightarrow>
        case translate of (tx, ty, tz) \<Rightarrow>
          (comoving_distance redshift * cos ra * cos dec + tx,
           comoving_distance redshift * sin ra * cos dec + ty,
           comoving_distance redshift * sin dec + tz))"

definition norm2 :: "vec3 \<Rightarrow> real" where
  "norm2 p = (case p of (x, y, z) \<Rightarrow> x\<^sup>2 + y\<^sup>2 + z\<^sup>2)"

subsection \<open>The catalog object\<close>

text \<open>
  An upstream data source: \<^verbatim>\<open>source.read(['Position', 'Weight'], full=full)\<close> yields
  chunks, each a block of (ra, dec, redshift) rows and the weights of these rows. The
  chunks may depend on \<open>full\<close>.
\<close>

record chunk =
  Position :: "vec3 list"
  Weight :: "real list"

type_synonym datasource = "bool \<Rightarrow> chunk list"

text \<open>A density curve is a callable from redshift to density.\<close>
type_synonym curve = "f64 \<Rightarrow> f64"

text \<open>
  \<^verbatim>\<open>spline(x, y)\<close>, scipy's \<^verbatim>\<open>InterpolatedUnivariateSpline\<close>: given the knots
  it returns a curve, or raises (it needs more knots than its degree).
\<close>
type_synonym interpolator = "f64 list \<Rightarrow> f64 list \<Rightarrow> failure + curve"

text \<open>
  The attributes of a \<^verbatim>\<open>TracerCatalogDataSource\<close>. Those of the constructor's
  signature are set by the plugin framework before the body of \<^verbatim>\<open>__init__\<close> runs;
  \<open>None\<close> is Python's \<^verbatim>\<open>None\<close>. \<open>source\<close> is \<^verbatim>\<open>self._source\<close>.
\<close>

record catalog =
  cosmo :: "cosmology option"
  data :: datasource
  randoms :: datasource
  BoxSize :: "vec3 option"
  BoxPad :: real
  compute_fkp_weights :: bool
  P0_fkp :: "real option"
  nbar :: "curve option"
  fsky :: "real option"
  source :: "datasource option"
  offset :: "vec3 option"

subsection \<open>Messages\<close>

definition quoted :: "string \<Rightarrow> string" where
  "quoted s = CHR 0x27 # s @ [CHR 0x27]"

fun join :: "string \<Rightarrow> string list \<Rightarrow> string" where
  "join sep [] = []"
| "join sep [s] = s"
| "join sep (s # t # ss) = s @ sep @ join sep (t # ss)"

text \<open>\<^verbatim>\<open>str\<close> of a list of plain strings.\<close>
definition str_list :: "string list \<Rightarrow> string" where
  "str_list xs = ''['' @ join '', '' (map quoted xs) @ '']''"

definition msg_cosmo :: string where
  "msg_cosmo = ''please specify a input Cosmology to use in TracerCatalog''"

definition msg_fsky :: string where
  "msg_fsky = ''please specify `fsky` to compute volume needed for `nbar`''"

definition msg_set_source :: string where
  "msg_set_source = quoted ''source'' @ '' must be set to either `data` or `randoms`''"

definition msg_no_source :: string where
  "msg_no_source = ''set `source` attribute to `data` or `randoms` by calling `set_source`''"

definition msg_P0_fkp :: string where
  "msg_P0_fkp = ''if '' @ quoted ''compute_fkp_weights'' @ '' is set, please specify a value for ''
                 @ quoted ''P0_fkp''"

definition msg_nbar_file :: string where
  "msg_nbar_file = quoted ''%s'' @ '' file for reading nbar does not exist''"

definition msg_zero_size :: string where
  "msg_zero_size = ''zero-size array to reduction operation maximum which has no identity''"

subsection \<open>\<^verbatim>\<open>nbar_fromfile\<close>\<close>

text \<open>
  \<^verbatim>\<open>
  from scipy.interpolate import InterpolatedUnivariateSpline as spline
  ...
  def nbar_fromfile(filename):
      import os
      if not os.path.exists(filename):
          raise ValueError("'%s' file for reading nbar does not exist")
      # assumes two columns: (z, nbar)
      d = numpy.loadtxt(filename)
      return InterpolatedUnivariateSpline(d[:,0], d[:,1])
  \<close>
  The file system maps the paths that exist to the table \<^verbatim>\<open>numpy.loadtxt\<close> reads
  from them. The module binds scipy's class to the name \<^verbatim>\<open>spline\<close> only, so the
  name looked up in the last line is unbound; and the message of the first error is the
  format string itself, which is never applied to \<open>filename\<close>.
\<close>

type_synonym filesystem = "string \<rightharpoonup> real list list"

definition nbar_fromfile :: "filesystem \<Rightarrow> string \<Rightarrow> failure + curve" where
  "nbar_fromfile fs filename =
     (case fs filename of
        None \<Rightarrow> Inl (ValueError msg_nbar_file)
      | Some d \<Rightarrow>
          Inl (NameError (''name '' @ quoted ''InterpolatedUnivariateSpline'' @ '' is not defined'')))"


subsection \<open>\<^verbatim>\<open>_define_box\<close>\<close>

definition vmap :: "('a \<Rightarrow> 'b) \<Rightarrow> 'a \<times> 'a \<times> 'a \<Rightarrow> 'b \<times> 'b \<times> 'b" where
  "vmap g v = (case v of (a, b, c) \<Rightarrow> (g a, g b, g c))"

definition vmap2 :: "(real \<Rightarrow> real \<Rightarrow> 'a) \<Rightarrow> vec3 \<Rightarrow> vec3 \<Rightarrow> 'a \<times> 'a \<times> 'a" where
  "vmap2 g v w = (case v of (a, b, c) \<Rightarrow> case w of (x, y, z) \<Rightarrow> (g a x, g b y, g c z))"

definition vlist :: "'a \<times> 'a \<times> 'a \<Rightarrow> 'a list" where
  "vlist v = (case v of (a, b, c) \<Rightarrow> [a, b, c])"

text \<open>
  \<^verbatim>\<open>
  def _define_box(self, coords_min, coords_max):
      delta = abs(coords_max - coords_min)
      self.offset = 0.5 * (coords_min + coords_max)
      if self.BoxSize is None:
          delta *= 1.0 + self.BoxPad
          self.BoxSize = delta.astype(int)
      else:
          for i, L in enumerate(delta):
              if self.BoxSize[i] < L:
                  args = (self.BoxSize[i], i, L)
                  logger.warning("input BoxSize of %.2f in dimension %d smaller ..." %args)
  \<close>
  The result is the updated object and the arguments of the warnings logged.
\<close>

definition define_box ::
  "arith \<Rightarrow> catalog \<Rightarrow> vec3 \<Rightarrow> vec3 \<Rightarrow> catalog \<times> (real \<times> nat \<times> f64) list" where
  "define_box ar self coords_min coords_max =
     (let delta = vmap f64_abs (vmap2 (\<lambda>hi lo. fsub ar (Finite hi) (Finite lo)) coords_max coords_min);
          self = self\<lparr>offset := Some (vmap (\<lambda>s. 0.5 * s) (vmap2 (+) coords_min coords_max))\<rparr>
      in case BoxSize self of
           None \<Rightarrow>
             (self\<lparr>BoxSize :=
                     Some (vmap (\<lambda>d. real_of_int
                                         (astype_int (fmul ar d (fadd ar (Finite 1.0) (Finite (BoxPad self))))))
                             delta)\<rparr>,
              [])
         | Some box \<Rightarrow>
             (self,
              map (\<lambda>(i, L). (vlist box ! i, i, L))
                (filter (\<lambda>(i, L). f64_lt (Finite (vlist box ! i)) L) (enumerate 0 (vlist delta)))))"

subsection \<open>\<^verbatim>\<open>_set_nbar\<close>\<close>

text \<open>
  \<^verbatim>\<open>numpy.arange(Nbins + 1)\<close> for the clamped bin number: \<open>Nbins + 1\<close> entries
  \<open>0, 1, ...\<close>; numpy raises when the length is not finite.
\<close>
definition arange_plus1 :: "f64 \<Rightarrow> failure + nat list" where
  "arange_plus1 Nbins =
     (case Nbins of Finite m \<Rightarrow> Inr [0..<nat \<lceil>m + 1\<rceil>] | _ \<Rightarrow> Inl ArangeError)"

text \<open>
  \<^verbatim>\<open>
  def scotts_bin_width(data):
      n = data.size
      sigma = numpy.std(data)
      dx = 3.5 * sigma * 1. / (n ** (1. / 3))
      Nbins = numpy.ceil((data.max() - data.min()) * 1. / dx)
      Nbins = max(1, Nbins)
      bins = data.min() + dx * numpy.arange(Nbins + 1)
      return dx, bins
  \<close>
  On an empty array \<^verbatim>\<open>data.max()\<close> raises (the lines before it only warn). A zero
  \<open>dx\<close> makes the quotient \<open>nan\<close> or \<open>inf\<close>, which numpy signals by a warning only.
\<close>

definition scotts_bin_width :: "arith \<Rightarrow> real list \<Rightarrow> failure + (f64 \<times> f64 list)" where
  "scotts_bin_width ar data' =
     (if data' = [] then Inl (ValueError msg_zero_size)
      else
        let n = length data';
            sigma = fstd ar data';
            dx = fdiv ar (fmul ar (fmul ar (Finite 3.5) sigma) (Finite 1))
                   (fpow ar (Finite (real n)) (fdiv ar (Finite 1) (Finite 3)));
            Nbins = f64_ceil (fdiv ar (fmul ar (fsub ar (Finite (Max (set data')))
                                                      (Finite (Min (set data'))))
                                          (Finite 1)) dx);
            Nbins = py_max1 Nbins
        in case arange_plus1 Nbins of
             Inl e \<Rightarrow> Inl e
           | Inr ks \<Rightarrow>
               Inr (dx, map (\<lambda>k. fadd ar (Finite (Min (set data'))) (fmul ar dx (Finite (real k)))) ks))"

text \<open>
  \<^verbatim>\<open>numpy.searchsorted(a, v, "right")\<close> on a non-decreasing array \<open>a\<close>: the index
  \<open>i\<close> with \<open>a[i-1] <= v < a[i]\<close>, that is the length of the prefix of entries \<open><= v\<close>.
\<close>
definition searchsorted_right :: "f64 list \<Rightarrow> real \<Rightarrow> nat" where
  "searchsorted_right a v = length (takeWhile (\<lambda>e. f64_le e (Finite v)) a)"

text \<open>
  \<^verbatim>\<open>numpy.bincount(x, minlength=m)\<close>: entry \<open>k\<close> counts the occurrences of \<open>k\<close> in
  \<open>x\<close>; the result has \<open>max(m, amax(x) + 1)\<close> entries.
\<close>
definition bincount :: "nat list \<Rightarrow> nat \<Rightarrow> nat list" where
  "bincount x minlength =
     map (count_list x) [0..<max minlength (if x = [] then 0 else Max (set x) + 1)]"

text \<open>The slice \<^verbatim>\<open>a[1:-1]\<close>.\<close>
definition slice_1_m1 :: "'a list \<Rightarrow> 'a list" where
  "slice_1_m1 a = butlast (tl a)"

definition msg_no_cosmo_attr :: string where
  "msg_no_cosmo_attr = quoted ''NoneType'' @ '' object has no attribute '' @ quoted ''comoving_distance''"

text \<open>
  \<^verbatim>\<open>
  def _set_nbar(self, redshift, alpha=1.0):
      # if spline already exists, do nothing
      if self.nbar is not None:
          return
      if self.fsky is None:
          raise ValueError("please specify `fsky` to compute volume needed for `nbar`")
      ...
      # do the histogram of N(z)
      dz, zbins = scotts_bin_width(redshift)
      dig = numpy.searchsorted(zbins, redshift, "right")
      N = numpy.bincount(dig, minlength=len(zbins)+1)[1:-1]
      # compute the volume
      R_hi = self.cosmo.comoving_distance(zbins[1:])
      R_lo = self.cosmo.comoving_distance(zbins[:-1])
      volume = (4./3.)*numpy.pi*(R_hi**3 - R_lo**3) * self.fsky
      # store the nbar
      z_cen = 0.5*(zbins[:-1] + zbins[1:])
      self.nbar = spline(z_cen, alpha*N/volume)
  \<close>
\<close>

definition set_nbar ::
  "arith \<Rightarrow> interpolator \<Rightarrow> catalog \<Rightarrow> real list \<Rightarrow> real \<Rightarrow> failure + catalog" where
  "set_nbar ar spline self redshift alpha =
     (case nbar self of
        Some c \<Rightarrow> Inr self
      | None \<Rightarrow>
         (case fsky self of
            None \<Rightarrow> Inl (ValueError msg_fsky)
          | Some f \<Rightarrow>
             (case scotts_bin_width ar redshift of
                Inl e \<Rightarrow> Inl e
              | Inr (dz, zbins) \<Rightarrow>
                 let dig = map (searchsorted_right zbins) redshift;
                     N = slice_1_m1 (bincount dig (length zbins + 1))
                 in case cosmo self of
                      None \<Rightarrow> Inl (AttributeError msg_no_cosmo_attr)
                    | Some comoving_distance \<Rightarrow>
                       let R_hi = map (at_f64 comoving_distance) (tl zbins);
                           R_lo = map (at_f64 comoving_distance) (butlast zbins);
                           volume = map (\<lambda>(hi, lo).
                                           fmul ar
                                             (fmul ar (fmul ar (fdiv ar (Finite 4) (Finite 3)) (fpi ar))
                                                (fsub ar (fpow ar hi (Finite 3)) (fpow ar lo (Finite 3))))
                                             (Finite f))
                                      (zip R_hi R_lo);
                           z_cen = map (\<lambda>(lo, hi). fmul ar (Finite 0.5) (fadd ar lo hi))
                                     (zip (butlast zbins) (tl zbins));
                           density = map (\<lambda>(c, v). fdiv ar (fmul ar (Finite alpha) (Finite (real c))) v)
                                       (zip N volume)
                       in case spline z_cen density of
                            Inl e \<Rightarrow> Inl e
                          | Inr c \<Rightarrow> Inr (self\<lparr>nbar := Some c\<rparr>))))"


subsection \<open>\<^verbatim>\<open>set_source\<close>\<close>

text \<open>
  \<^verbatim>\<open>
  def set_source(self, which):
      if which == 'data':
          self._source = self.data
      elif which == 'randoms':
          self._source = self.randoms
      else:
          raise NotImplementedError("'source' must be set to either `data` or `randoms`")
  \<close>
  The result is the object after the call and the exception raised, if any.
\<close>

definition set_source :: "catalog \<Rightarrow> string \<Rightarrow> catalog \<times> failure option" where
  "set_source self which =
     (if which = ''data'' then (self\<lparr>source := Some (data self)\<rparr>, None)
      else if which = ''randoms'' then (self\<lparr>source := Some (randoms self)\<rparr>, None)
      else (self, Some (NotImplementedError msg_set_source)))"

subsection \<open>\<^verbatim>\<open>read\<close>\<close>

datatype column = Rows "vec3 list" | Values "f64 list"

text \<open>
  What a run of the generator does: the items it yields, the number of chunks it has
  pulled from the active source, and the exception that ends it, if one does.
\<close>
record run =
  yielded :: "column list list"
  consumed :: nat
  raised :: "failure option"

definition valid :: "string list" where
  "valid = [''Position'', ''Weight'', ''Nbar'']"

definition class_name :: string where
  "class_name = ''TracerCatalogDataSource''"

definition msg_columns :: string where
  "msg_columns = ''valid `columns` to read from '' @ class_name @ '': '' @ str_list valid"

definition msg_neg_none :: string where
  "msg_neg_none = ''bad operand type for unary -: '' @ quoted ''NoneType''"

definition msg_call_none :: string where
  "msg_call_none = quoted ''NoneType'' @ '' object is not callable''"

text \<open>
  The body of the loop of \<^verbatim>\<open>read\<close> on the coordinating process:
  \<^verbatim>\<open>
  pos = self._to_cartesian(coords, translate=-self.offset)
  nbar = self.nbar(coords[:,-1])
  if self.compute_fkp_weights:
      if self.P0_fkp is None:
          raise ValueError("if 'compute_fkp_weights' is set, please specify a value for 'P0_fkp'")
      weight = 1. / (1. + nbar*self.P0_fkp)
  P = {}
  P['Position'] = pos
  P['Weight']   = weight
  P['Nbar']     = nbar
  data = [P[key] for key in columns]
  \<close>
\<close>

text \<open>The update of the weights, the \<^verbatim>\<open>if self.compute_fkp_weights:\<close> block.\<close>
definition fkp_weight :: "arith \<Rightarrow> catalog \<Rightarrow> f64 list \<Rightarrow> real list \<Rightarrow> failure + f64 list" where
  "fkp_weight ar self nb weight =
     (if compute_fkp_weights self
      then (case P0_fkp self of
              None \<Rightarrow> Inl (ValueError msg_P0_fkp)
            | Some P0 \<Rightarrow>
                Inr (map (\<lambda>n. fdiv ar (Finite 1) (fadd ar (Finite 1) (fmul ar n (Finite P0)))) nb))
      else Inr (map Finite weight))"

fun collect :: "(failure + 'a) list \<Rightarrow> failure + 'a list" where
  "collect [] = Inr []"
| "collect (Inl e # rs) = Inl e"
| "collect (Inr v # rs) = (case collect rs of Inl e \<Rightarrow> Inl e | Inr vs \<Rightarrow> Inr (v # vs))"

text \<open>\<^verbatim>\<open>[P[key] for key in columns]\<close>.\<close>
definition select_columns :: "(string \<rightharpoonup> column) \<Rightarrow> string list \<Rightarrow> failure + column list" where
  "select_columns P columns =
     collect (map (\<lambda>key. case P key of None \<Rightarrow> Inl (KeyError key) | Some v \<Rightarrow> Inr v) columns)"

definition read_chunk :: "arith \<Rightarrow> catalog \<Rightarrow> string list \<Rightarrow> chunk \<Rightarrow> failure + column list" where
  "read_chunk ar self columns c =
     (let coords = Position c; weight = Weight c in
      case offset self of
        None \<Rightarrow> Inl (TypeError msg_neg_none)
      | Some off \<Rightarrow>
         (case cosmo self of
            None \<Rightarrow> Inl (AttributeError msg_no_cosmo_attr)
          | Some comoving_distance \<Rightarrow>
             let pos = to_cartesian comoving_distance coords (vmap uminus off) in
             case nbar self of
               None \<Rightarrow> Inl (TypeError msg_call_none)
             | Some curve \<Rightarrow>
                let nb = map curve (map (\<lambda>(ra, dec, redshift). Finite redshift) coords) in
                case fkp_weight ar self nb weight of
                  Inl e \<Rightarrow> Inl e
                | Inr weight \<Rightarrow>
                   select_columns
                     [''Position'' \<mapsto> Rows pos, ''Weight'' \<mapsto> Values weight, ''Nbar'' \<mapsto> Values nb]
                     columns))"

fun read_loop :: "arith \<Rightarrow> catalog \<Rightarrow> string list \<Rightarrow> chunk list \<Rightarrow> run" where
  "read_loop ar self columns [] = \<lparr>yielded = [], consumed = 0, raised = None\<rparr>"
| "read_loop ar self columns (c # cs) =
     (case read_chunk ar self columns c of
        Inl e \<Rightarrow> \<lparr>yielded = [], consumed = 1, raised = Some e\<rparr>
      | Inr item \<Rightarrow>
          (let r = read_loop ar self columns cs
           in r\<lparr>yielded := item # yielded r, consumed := Suc (consumed r)\<rparr>))"

text \<open>
  \<^verbatim>\<open>
  def read(self, columns, full=False):
      if self._source is None:
          raise ValueError("set `source` attribute to `data` or `randoms` by calling `set_source`")
      valid = ['Position', 'Weight', 'Nbar']
      if any(col not in valid for col in columns):
          args = (self.__class__.__name__, str(valid))
          raise ValueError("valid `columns` to read from %s: %s" %args)
      for [coords, weight] in self._source.read(['Position', 'Weight'], full=full):
          ...
          yield data
  \<close>
  on the coordinating process, where the loop body computes the data.
\<close>

definition read :: "arith \<Rightarrow> catalog \<Rightarrow> string list \<Rightarrow> bool \<Rightarrow> run" where
  "read ar self columns full =
     (case source self of
        None \<Rightarrow> \<lparr>yielded = [], consumed = 0, raised = Some (ValueError msg_no_source)\<rparr>
      | Some src \<Rightarrow>
          if list_ex (\<lambda>col. col \<notin> set valid) columns
          then \<lparr>yielded = [], consumed = 0, raised = Some (ValueError msg_columns)\<rparr>
          else read_loop ar self columns (src full))"

subsection \<open>\<^verbatim>\<open>__init__\<close>\<close>

text \<open>
  What a process has done to its data source and to the group while constructing.
\<close>
datatype event = ChunkRead | Accumulated | Gathered

text \<open>
  The running corners and the redshifts collected so far. The corners start at
  \<^verbatim>\<open>[inf]*3\<close> and \<^verbatim>\<open>[-inf]*3\<close>, the neutral elements of the minimum and the
  maximum: \<open>None\<close> stands for them.
\<close>
type_synonym accum = "vec3 option \<times> vec3 option \<times> real list"

fun towards :: "(real \<Rightarrow> real \<Rightarrow> real) \<Rightarrow> vec3 option \<Rightarrow> vec3 option \<Rightarrow> vec3 option" where
  "towards f None w = w"
| "towards f (Some v) None = Some v"
| "towards f (Some v) (Some w) = Some (vmap2 f v w)"

text \<open>\<^verbatim>\<open>a.min(axis=0)\<close> and \<^verbatim>\<open>numpy.amin(a, axis=0)\<close> with \<open>f = min\<close>, the maxima with \<open>f = max\<close>.\<close>
definition along_axis0 :: "(real \<Rightarrow> real \<Rightarrow> real) \<Rightarrow> vec3 option list \<Rightarrow> vec3 option" where
  "along_axis0 f rows = fold (\<lambda>row acc. towards f acc row) rows None"

text \<open>
  \<^verbatim>\<open>
  for [coords] in self.data.read(['Position'], full=False):
      if len(coords):
          cartesian = self._to_cartesian(coords)
          coords_min = numpy.minimum(coords_min, cartesian.min(axis=0))
          coords_max = numpy.maximum(coords_max, cartesian.max(axis=0))
          redshifts += list(coords[:,-1])
  \<close>
\<close>

fun scan_data :: "cosmology \<Rightarrow> vec3 list list \<Rightarrow> accum \<Rightarrow> accum \<times> event list" where
  "scan_data comoving_distance [] acc = (acc, [])"
| "scan_data comoving_distance (coords # rest) (coords_min, coords_max, redshifts) =
     (if coords \<noteq> [] then
        let cartesian = to_cartesian comoving_distance coords no_translate;
            acc = (towards min coords_min (along_axis0 min (map Some cartesian)),
                   towards max coords_max (along_axis0 max (map Some cartesian)),
                   redshifts @ map (\<lambda>(ra, dec, redshift). redshift) coords)
        in case scan_data comoving_distance rest acc of
             (final, trace) \<Rightarrow> (final, ChunkRead # Accumulated # trace)
      else
        case scan_data comoving_distance rest (coords_min, coords_max, redshifts) of
          (final, trace) \<Rightarrow> (final, ChunkRead # trace))"

text \<open>
  \<^verbatim>\<open>__init__\<close> on the coordinating process (rank 0). \<open>others\<close> is what
  \<^verbatim>\<open>comm.gather\<close> brings from the other processes; the broadcasts leave the
  coordinator's values as they are.
  \<^verbatim>\<open>
  self._source = None
  self.offset  = None
  if self.cosmo is None:
      raise ValueError("please specify a input Cosmology to use in TracerCatalog")
  self.cosmo.sample('comoving_distance', numpy.logspace(-5, 1, 1024))
  coords_min = numpy.array([numpy.inf]*3)
  coords_max = numpy.array([-numpy.inf]*3)
  redshifts = []
  for [coords] in self.data.read(['Position'], full=False): ...
  coords_min = self.comm.gather(coords_min)
  coords_max = self.comm.gather(coords_max)
  redshifts = self.comm.gather(redshifts)
  if self.comm.rank == 0:
      coords_min = numpy.amin(coords_min, axis=0)
      coords_max = numpy.amax(coords_max, axis=0)
      redshifts = numpy.concatenate(redshifts)
      self._define_box(coords_min, coords_max)
      self._set_nbar(numpy.array(redshifts), alpha=1.0)
  \<close>
  When no process has seen a row the corners are still infinite: the code then stores
  \<open>nan\<close> as offset without raising and goes on to \<^verbatim>\<open>_set_nbar\<close>. The model runs
  \<^verbatim>\<open>_set_nbar\<close> for its exceptions and, should it return, stops with \<open>NonFinite\<close>.
  The result is the log of the process and the object or the exception.
\<close>

definition init ::
  "arith \<Rightarrow> interpolator \<Rightarrow> catalog \<Rightarrow> accum list \<Rightarrow> event list \<times> (failure + catalog)" where
  "init ar spline self others =
     (let self = self\<lparr>source := None, offset := None\<rparr> in
      case cosmo self of
        None \<Rightarrow> ([], Inl (ValueError msg_cosmo))
      | Some comoving_distance \<Rightarrow>
          (case scan_data comoving_distance (map Position (data self False)) (None, None, []) of
             (local, trace) \<Rightarrow>
               let gathered = local # others;
                   coords_min = along_axis0 min (map (\<lambda>(lo, hi, zs). lo) gathered);
                   coords_max = along_axis0 max (map (\<lambda>(lo, hi, zs). hi) gathered);
                   redshifts = concat (map (\<lambda>(lo, hi, zs). zs) gathered)
               in (trace @ [Gathered],
                   case (coords_min, coords_max) of
                     (Some lo, Some hi) \<Rightarrow>
                        set_nbar ar spline (fst (define_box ar self lo hi)) redshifts 1.0
                   | _ \<Rightarrow>
                        (case set_nbar ar spline self redshifts 1.0 of
                           Inl e \<Rightarrow> Inl e
                         | Inr _ \<Rightarrow> Inl NonFinite))))"


subsection \<open>Example objects\<close>

text \<open>A catalog as the framework hands it to the constructor with only the defaults set.\<close>
definition bare_catalog :: catalog where
  "bare_catalog =
     \<lparr>cosmo = None, data = (\<lambda>full. []), randoms = (\<lambda>full. []), BoxSize = None, BoxPad = 0.02,
      compute_fkp_weights = False, P0_fkp = None, nbar = None, fsky = None,
      source = None, offset = None\<rparr>"

text \<open>A one-chunk source with a single object at redshift 1, and a toy cosmology.\<close>
definition one_chunk :: datasource where
  "one_chunk full = [\<lparr>Position = [(0, 0, 1)], Weight = [1]\<rparr>]"

definition linear_cosmology :: cosmology where
  "linear_cosmology s = 3000 * s"

text \<open>The catalog before construction: a cosmology and sources, neither nbar nor fsky.\<close>
definition survey :: catalog where
  "survey = bare_catalog\<lparr>cosmo := Some linear_cosmology, data := one_chunk, randoms := one_chunk\<rparr>"

text \<open>A constructed catalog with FKP weighting and the data source selected.\<close>
definition fkp_survey :: catalog where
  "fkp_survey = survey\<lparr>offset := Some (0, 0, 0), BoxSize := Some (10, 10, 10),
                        nbar := Some (\<lambda>s. Finite (1 / 1000)), compute_fkp_weights := True,
                        P0_fkp := Some 1000, source := Some one_chunk\<rparr>"


text \<open>
  An arithmetic for the examples: it does not round. On finite operands it is the
  arithmetic of the real numbers, with the results float64 gives for a zero divisor; the
  sums, products and quotients with \<open>inf\<close> and \<open>nan\<close> follow IEEE 754 (without a
  negative zero), and \<open>exact_pow\<close> gives \<open>nan\<close> when an operand is not finite.
\<close>
fun f64_neg :: "f64 \<Rightarrow> f64" where
  "f64_neg (Finite a) = Finite (- a)"
| "f64_neg PosInf = NegInf"
| "f64_neg NegInf = PosInf"
| "f64_neg NaN = NaN"

fun f64_sgn :: "f64 \<Rightarrow> real" where
  "f64_sgn (Finite a) = sgn a"
| "f64_sgn PosInf = 1"
| "f64_sgn NegInf = - 1"
| "f64_sgn NaN = 0"

definition inf_of :: "real \<Rightarrow> f64" where
  "inf_of s = (if 0 < s then PosInf else if s < 0 then NegInf else NaN)"

fun exact_add :: "f64 \<Rightarrow> f64 \<Rightarrow> f64" where
  "exact_add (Finite a) (Finite b) = Finite (a + b)"
| "exact_add NaN y = NaN"
| "exact_add x NaN = NaN"
| "exact_add PosInf NegInf = NaN"
| "exact_add NegInf PosInf = NaN"
| "exact_add PosInf y = PosInf"
| "exact_add NegInf y = NegInf"
| "exact_add x y = y"

definition exact_sub :: "f64 \<Rightarrow> f64 \<Rightarrow> f64" where
  "exact_sub x y = exact_add x (f64_neg y)"

fun exact_mul :: "f64 \<Rightarrow> f64 \<Rightarrow> f64" where
  "exact_mul (Finite a) (Finite b) = Finite (a * b)"
| "exact_mul NaN y = NaN"
| "exact_mul x NaN = NaN"
| "exact_mul x y = inf_of (f64_sgn x * f64_sgn y)"

fun exact_div :: "f64 \<Rightarrow> f64 \<Rightarrow> f64" where
  "exact_div (Finite a) (Finite b) = (if b = 0 then inf_of (sgn a) else Finite (a / b))"
| "exact_div NaN y = NaN"
| "exact_div x NaN = NaN"
| "exact_div (Finite a) y = Finite 0"
| "exact_div x (Finite b) = inf_of (f64_sgn x * (if b < 0 then - 1 else 1))"
| "exact_div x y = NaN"

fun exact_pow :: "f64 \<Rightarrow> f64 \<Rightarrow> f64" where
  "exact_pow (Finite a) (Finite b) =
     (if 0 < a then Finite (a powr b)
      else if a = 0 then (if b = 0 then Finite 1 else if 0 < b then Finite 0 else PosInf)
      else if b = real_of_int \<lfloor>b\<rfloor>
        then (if 0 \<le> b then Finite (a ^ nat \<lfloor>b\<rfloor>) else Finite (1 / a ^ nat \<lfloor>- b\<rfloor>))
        else NaN)"
| "exact_pow x y = NaN"

definition mean :: "real list \<Rightarrow> real" where
  "mean xs = sum_list xs / real (length xs)"

text \<open>The square root of the mean squared deviation from the mean, as \<^verbatim>\<open>numpy.std\<close> defines it.\<close>
definition std :: "real list \<Rightarrow> real" where
  "std xs = sqrt (mean (map (\<lambda>x. \<bar>x - mean xs\<bar>\<^sup>2) xs))"

definition exact_std :: "real list \<Rightarrow> f64" where
  "exact_std xs = (if xs = [] then NaN else Finite (std xs))"

definition exact :: arith where
  "exact = \<lparr>fadd = exact_add, fsub = exact_sub, fmul = exact_mul, fdiv = exact_div,
            fpow = exact_pow, fstd = exact_std, fpi = Finite pi\<rparr>"

text \<open>An interpolator for the examples: the curve that looks its argument up among the knots.\<close>
definition table_spline :: interpolator where
  "table_spline x y =
     (if length x = length y \<and> distinct x
      then Inr (\<lambda>s. case map_of (zip x y) s of Some v \<Rightarrow> v | None \<Rightarrow> NaN)
      else Inl (ValueError ''x must be strictly increasing''))"

subsection \<open>The estimator in the words of the spec\<close>

text \<open>
  Scott's rule, the clamped bin count, the uniform edges, the shell volume, the centre
  and the density of a bin, as section 4.2 of the spec words them, in the arithmetic of
  the machine.
\<close>
definition bin_width :: "arith \<Rightarrow> real list \<Rightarrow> f64" where
  "bin_width ar zs =
     fdiv ar (fmul ar (fmul ar (Finite 3.5) (fstd ar zs)) (Finite 1))
       (fpow ar (Finite (real (length zs))) (fdiv ar (Finite 1) (Finite 3)))"

definition bin_number :: "arith \<Rightarrow> real list \<Rightarrow> f64" where
  "bin_number ar zs =
     py_max1 (f64_ceil (fdiv ar (fmul ar (fsub ar (Finite (Max (set zs))) (Finite (Min (set zs))))
                                   (Finite 1))
                          (bin_width ar zs)))"

text \<open>The bin count as a natural number, when it is finite.\<close>
definition bin_count :: "arith \<Rightarrow> real list \<Rightarrow> nat option" where
  "bin_count ar zs = (case bin_number ar zs of Finite m \<Rightarrow> Some (nat \<lceil>m\<rceil>) | _ \<Rightarrow> None)"

definition bin_edge :: "arith \<Rightarrow> real list \<Rightarrow> nat \<Rightarrow> f64" where
  "bin_edge ar zs k = fadd ar (Finite (Min (set zs))) (fmul ar (bin_width ar zs) (Finite (real k)))"







text \<open>
  Two facts of IEEE 754 arithmetic, whose rounding is monotone: adding a finite number
  preserves \<^verbatim>\<open><=\<close>, and so does multiplying a finite number that is not negative
  with a count.
\<close>
definition monotone :: "arith \<Rightarrow> bool" where
  "monotone ar =
     ((\<forall>c a b. f64_le a b \<longrightarrow> f64_le (fadd ar (Finite c) a) (fadd ar (Finite c) b))
      \<and> (\<forall>d j k. 0 \<le> d \<longrightarrow> j \<le> k \<longrightarrow>
            f64_le (fmul ar (Finite d) (Finite (real j))) (fmul ar (Finite d) (Finite (real k)))))"

section \<open>Properties\<close>

subsection \<open>Properties of the projection\<close>

lemma to_cartesian_rowwise:
  "to_cartesian cd coords t = map (project_row cd t) coords"
proof (induction coords)
  case Nil
  show ?case by (simp add: to_cartesian_def vstack_T_def)
next
  case (Cons row rows)
  obtain a d s where row: "row = (a, d, s)" by (cases row) auto
  obtain tx ty tz where t: "t = (tx, ty, tz)" by (cases t) auto
  from Cons show ?case
    by (simp add: to_cartesian_def vstack_T_def project_row_def row t Let_def)
qed

lemma norm2_project_row:
  "norm2 (project_row cd no_translate (a, d, s)) = (cd s)\<^sup>2"
proof -
  have "(cd s * cos a * cos d)\<^sup>2 + (cd s * sin a * cos d)\<^sup>2 + (cd s * sin d)\<^sup>2
        = (cd s)\<^sup>2 * (((cos a)\<^sup>2 + (sin a)\<^sup>2) * (cos d)\<^sup>2 + (sin d)\<^sup>2)"
    by (simp only: power_mult_distrib distrib_left distrib_right mult_ac add_ac)
  also have "\<dots> = (cd s)\<^sup>2"
    by simp
  finally show ?thesis
    by (simp add: norm2_def project_row_def no_translate_def)
qed

text \<open>
  C1. For every array of (ra, dec, redshift) rows and every translate vector, the
  projection returns per row \<open>r = comoving_distance redshift\<close>,
  \<open>x = r cos ra cos dec\<close>, \<open>y = r sin ra cos dec\<close>, \<open>z = r sin dec\<close>, plus the
  translate vector; with the zero translate every output point lies on the sphere of
  radius \<open>r\<close>: \<open>x\<^sup>2 + y\<^sup>2 + z\<^sup>2 = r\<^sup>2\<close>.
\<close>
theorem C1_to_cartesian_formula_and_sphere:
  "to_cartesian cd coords (tx, ty, tz) =
     map (\<lambda>(ra, dec, redshift).
            (cd redshift * cos ra * cos dec + tx,
             cd redshift * sin ra * cos dec + ty,
             cd redshift * sin dec + tz)) coords
   \<and> map norm2 (to_cartesian cd coords no_translate)
       = map (\<lambda>(ra, dec, redshift). (cd redshift)\<^sup>2) coords"
proof
  have "project_row cd (tx, ty, tz) =
          (\<lambda>(ra, dec, redshift).
            (cd redshift * cos ra * cos dec + tx,
             cd redshift * sin ra * cos dec + ty,
             cd redshift * sin dec + tz))"
    by (auto simp: project_row_def fun_eq_iff)
  then show "to_cartesian cd coords (tx, ty, tz) =
     map (\<lambda>(ra, dec, redshift).
            (cd redshift * cos ra * cos dec + tx,
             cd redshift * sin ra * cos dec + ty,
             cd redshift * sin dec + tz)) coords"
    by (simp add: to_cartesian_rowwise)
next
  have "norm2 (project_row cd no_translate row) = (case row of (ra, dec, redshift) \<Rightarrow> (cd redshift)\<^sup>2)"
    for row
    by (cases row) (simp add: norm2_project_row)
  then show "map norm2 (to_cartesian cd coords no_translate)
       = map (\<lambda>(ra, dec, redshift). (cd redshift)\<^sup>2) coords"
    by (simp add: to_cartesian_rowwise)
qed

subsection \<open>Properties of the bounding box\<close>

text \<open>
  C2. With the default padding, corners that are \<open>1/2\<close> apart on every axis give the
  offset \<open>1/4\<close> and, in the arithmetic that does not round, the box size \<open>0\<close> on every
  axis: the automatic box is smaller than the extent of the data it is to hold.
\<close>
theorem C2_box_smaller_than_extent:
  "BoxSize bare_catalog = None \<and> BoxPad bare_catalog = 0.02
   \<and> define_box exact bare_catalog (0, 0, 0) (1 / 2, 1 / 2, 1 / 2)
       = (bare_catalog\<lparr>offset := Some (1 / 4, 1 / 4, 1 / 4), BoxSize := Some (0, 0, 0)\<rparr>, [])
   \<and> (0 :: real) < \<bar>1 / 2 - 0\<bar>"
  by (simp add: bare_catalog_def define_box_def vmap_def vmap2_def exact_def exact_sub_def
      trunc_def Let_def)

subsection \<open>Properties of the source selector and of the column check\<close>

lemma msg_no_source_names:
  "sublist ''`data`'' msg_no_source \<and> sublist ''`randoms`'' msg_no_source"
  by (simp add: msg_no_source_def sublist_code)

lemma msg_columns_names:
  "sublist ''Position'' msg_columns \<and> sublist ''Weight'' msg_columns \<and> sublist ''Nbar'' msg_columns"
  by (simp add: msg_columns_def class_name_def str_list_def valid_def quoted_def sublist_code)

text \<open>
  C7. The selector has the states unset, data and randoms. From any state,
  \<^verbatim>\<open>set_source('data')\<close> and \<^verbatim>\<open>set_source('randoms')\<close> select that source; any
  other argument raises (\<^verbatim>\<open>NotImplementedError\<close>) and leaves the object as it was.
  \<^verbatim>\<open>read\<close> with the selector unset raises an error whose message names \<open>data\<close> and
  \<open>randoms\<close>, before anything is read.
\<close>
theorem C7_source_selector:
  "set_source self ''data'' = (self\<lparr>source := Some (data self)\<rparr>, None)
   \<and> set_source self ''randoms'' = (self\<lparr>source := Some (randoms self)\<rparr>, None)
   \<and> (which \<noteq> ''data'' \<and> which \<noteq> ''randoms''
        \<longrightarrow> set_source self which = (self, Some (NotImplementedError msg_set_source)))
   \<and> source (fst (set_source self which)) \<in> {source self, Some (data self), Some (randoms self)}
   \<and> (source self = None
        \<longrightarrow> read ar self columns full
              = \<lparr>yielded = [], consumed = 0, raised = Some (ValueError msg_no_source)\<rparr>)
   \<and> sublist ''`data`'' msg_no_source \<and> sublist ''`randoms`'' msg_no_source"
  using msg_no_source_names by (simp add: set_source_def read_def)

theorem C7_source_selector_witness:
  "''both'' \<noteq> ''data'' \<and> ''both'' \<noteq> ''randoms''
   \<and> set_source bare_catalog ''both'' = (bare_catalog, Some (NotImplementedError msg_set_source))
   \<and> source bare_catalog = None
   \<and> read exact bare_catalog [''Position''] False
        = \<lparr>yielded = [], consumed = 0, raised = Some (ValueError msg_no_source)\<rparr>"
  using C7_source_selector [of bare_catalog "''both''" exact "[''Position'']" False]
  by (simp add: bare_catalog_def)

text \<open>
  C6. A request that contains a column other than Position, Weight and Nbar ends
  \<^verbatim>\<open>read\<close> with a \<^verbatim>\<open>ValueError\<close>; nothing is yielded and no chunk is pulled
  from the source. With a source selected the message is the one that names the three
  valid columns.
\<close>
theorem C6_unknown_column_rejected:
  assumes "col \<in> set columns" and "col \<notin> {''Position'', ''Weight'', ''Nbar''}"
  shows "(\<exists>msg. read ar self columns full
                  = \<lparr>yielded = [], consumed = 0, raised = Some (ValueError msg)\<rparr>)
         \<and> (source self \<noteq> None \<longrightarrow>
               read ar self columns full
                 = \<lparr>yielded = [], consumed = 0, raised = Some (ValueError msg_columns)\<rparr>)
         \<and> sublist ''Position'' msg_columns \<and> sublist ''Weight'' msg_columns
         \<and> sublist ''Nbar'' msg_columns"
proof -
  from assms have "list_ex (\<lambda>col. col \<notin> set valid) columns"
    by (auto simp: list_ex_iff valid_def)
  then show ?thesis
    using msg_columns_names by (cases "source self") (simp_all add: read_def)
qed

theorem C6_unknown_column_rejected_witness:
  "source fkp_survey = Some one_chunk \<and> ''Velocity'' \<in> set [''Position'', ''Velocity'']
   \<and> ''Velocity'' \<notin> {''Position'', ''Weight'', ''Nbar''}
   \<and> one_chunk False \<noteq> []
   \<and> read exact fkp_survey [''Position'', ''Velocity''] False
        = \<lparr>yielded = [], consumed = 0, raised = Some (ValueError msg_columns)\<rparr>"
proof -
  have h1: "source fkp_survey = Some one_chunk" by (simp add: fkp_survey_def)
  have h2: "''Velocity'' \<in> set [''Position'', ''Velocity'']" by simp
  have h3: "''Velocity'' \<notin> {''Position'', ''Weight'', ''Nbar''}" by simp
  from C6_unknown_column_rejected [OF h2 h3, of exact fkp_survey False] h1 h2 h3
  show ?thesis by (simp add: one_chunk_def)
qed

subsection \<open>Properties of the construction\<close>

lemma define_box_nbar: "nbar (fst (define_box ar self lo hi)) = nbar self"
  by (simp add: define_box_def Let_def split: option.splits)

lemma define_box_fsky: "fsky (fst (define_box ar self lo hi)) = fsky self"
  by (simp add: define_box_def Let_def split: option.splits)

lemma set_nbar_present: "nbar self = Some c \<Longrightarrow> set_nbar ar spline self redshift alpha = Inr self"
  by (simp add: set_nbar_def)

lemma set_nbar_no_fsky:
  "nbar self = None \<Longrightarrow> fsky self = None
   \<Longrightarrow> set_nbar ar spline self redshift alpha = Inl (ValueError msg_fsky)"
  by (simp add: set_nbar_def)

lemma init_nbar_present:
  assumes "nbar self = Some c" and "snd (init ar spline self others) = Inr made"
  shows "nbar made = Some c"
proof -
  define self' where "self' = self\<lparr>source := None, offset := None\<rparr>"
  have n: "nbar self' = Some c" using assms(1) by (simp add: self'_def)
  have box: "set_nbar ar spline (fst (define_box ar self' lo hi)) zs a = Inr (fst (define_box ar self' lo hi))"
    for lo hi zs a
    by (rule set_nbar_present) (simp add: define_box_nbar n)
  from assms(2) show ?thesis
    unfolding init_def Let_def self'_def [symmetric]
    by (auto simp: box define_box_nbar n split: option.splits prod.splits sum.splits)
qed

text \<open>
  C8. When a density curve is already present, \<^verbatim>\<open>_set_nbar\<close> returns at once:
  whatever the redshift sample and whether or not fsky is given, the object is
  unchanged. Neither \<^verbatim>\<open>set_source\<close> nor a construction that succeeds replaces the
  curve.
\<close>
theorem C8_precomputed_nbar_kept:
  assumes "nbar self = Some c"
  shows "set_nbar ar spline self redshift alpha = Inr self
         \<and> nbar (fst (set_source self which)) = Some c
         \<and> (\<forall>made. snd (init ar spline self others) = Inr made \<longrightarrow> nbar made = Some c)"
  using assms init_nbar_present [OF assms]
  by (simp add: set_nbar_present set_source_def)

theorem C8_precomputed_nbar_kept_witness:
  "nbar fkp_survey = Some (\<lambda>s. Finite (1 / 1000)) \<and> fsky fkp_survey = None
   \<and> set_nbar exact table_spline fkp_survey [] 1 = Inr fkp_survey"
proof -
  have h: "nbar fkp_survey = Some (\<lambda>s. Finite (1 / 1000))" by (simp add: fkp_survey_def)
  have f: "fsky fkp_survey = None" by (simp add: fkp_survey_def survey_def bare_catalog_def)
  from C8_precomputed_nbar_kept [OF h, of exact table_spline "[]" 1] h f show ?thesis by simp
qed

lemma scan_data_trace:
  "count_list (snd (scan_data cd chunks acc)) ChunkRead = length chunks
   \<and> count_list (snd (scan_data cd chunks acc)) Accumulated = length (filter (\<lambda>c. c \<noteq> []) chunks)
   \<and> Gathered \<notin> set (snd (scan_data cd chunks acc))"
proof (induction chunks arbitrary: acc)
  case Nil
  show ?case by simp
next
  case (Cons coords rest)
  obtain lo hi zs where acc: "acc = (lo, hi, zs)" by (cases acc) auto
  show ?case
  proof (cases "coords = []")
    case True
    with Cons [of "(lo, hi, zs)"] show ?thesis
      by (auto simp: acc split: prod.splits)
  next
    case False
    define acc' where "acc' = (towards min lo (along_axis0 min (map Some (to_cartesian cd coords no_translate))),
                   towards max hi (along_axis0 max (map Some (to_cartesian cd coords no_translate))),
                   zs @ map (\<lambda>(ra, dec, redshift). redshift) coords)"
    from False Cons [of acc'] show ?thesis
      by (auto simp: acc acc'_def [symmetric] Let_def split: prod.splits)
  qed
qed

lemma init_no_fsky:
  assumes "cosmo self = Some cd" and "nbar self = None" and "fsky self = None"
  shows "init ar spline self others
           = (snd (scan_data cd (map Position (data self False)) (None, None, [])) @ [Gathered],
              Inl (ValueError msg_fsky))"
proof -
  define self' where "self' = self\<lparr>source := None, offset := None\<rparr>"
  have c: "cosmo self' = Some cd" and n: "nbar self' = None" and f: "fsky self' = None"
    and d: "data self' = data self"
    using assms by (simp_all add: self'_def)
  have plain: "set_nbar ar spline self' zs a = Inl (ValueError msg_fsky)" for zs a
    by (rule set_nbar_no_fsky [OF n f])
  have boxed: "set_nbar ar spline (fst (define_box ar self' lo hi)) zs a = Inl (ValueError msg_fsky)"
    for lo hi zs a
    by (rule set_nbar_no_fsky) (simp_all add: define_box_nbar define_box_fsky n f)
  show ?thesis
    unfolding init_def Let_def self'_def [symmetric]
    by (simp add: c d plain boxed split: prod.splits option.splits)
qed

lemma init_no_cosmo:
  "cosmo self = None \<Longrightarrow> init ar spline self others = ([], Inl (ValueError msg_cosmo))"
  by (simp add: init_def Let_def)

text \<open>
  C3, amended. Only the missing cosmology is checked before anything is read: without
  a cosmology the construction fails with nothing read. With a cosmology, without a
  precomputed nbar and without fsky, the construction fails on the coordinating process
  with the \<^verbatim>\<open>ValueError\<close> about fsky, raised by \<^verbatim>\<open>_set_nbar\<close>: by then every
  chunk of the data source has been read, every non-empty chunk has been accumulated,
  and the gather has taken place.
\<close>
theorem C3_fsky_failure_after_reading:
  "(cosmo self = None \<longrightarrow> init ar spline self others = ([], Inl (ValueError msg_cosmo)))
   \<and> (cosmo self \<noteq> None \<and> nbar self = None \<and> fsky self = None \<longrightarrow>
        snd (init ar spline self others) = Inl (ValueError msg_fsky)
        \<and> count_list (fst (init ar spline self others)) ChunkRead = length (data self False)
        \<and> count_list (fst (init ar spline self others)) Accumulated
            = length (filter (\<lambda>c. Position c \<noteq> []) (data self False))
        \<and> count_list (fst (init ar spline self others)) Gathered = 1)"
proof (intro conjI impI)
  assume "cosmo self = None"
  then show "init ar spline self others = ([], Inl (ValueError msg_cosmo))"
    by (rule init_no_cosmo)
next
  assume a: "cosmo self \<noteq> None \<and> nbar self = None \<and> fsky self = None"
  then obtain cd where cd: "cosmo self = Some cd" by auto
  from a have n: "nbar self = None" and f: "fsky self = None" by simp_all
  have g: "count_list xs Gathered = 0" if "Gathered \<notin> set xs" for xs :: "event list"
    using that by (simp add: count_list_0_iff)
  note i = init_no_fsky [OF cd n f, of ar spline others]
  note t = scan_data_trace [of cd "map Position (data self False)" "(None, None, [])"]
  show "snd (init ar spline self others) = Inl (ValueError msg_fsky)"
    by (simp add: i)
  show "count_list (fst (init ar spline self others)) ChunkRead = length (data self False)"
    using t by (simp add: i)
  show "count_list (fst (init ar spline self others)) Accumulated
            = length (filter (\<lambda>c. Position c \<noteq> []) (data self False))"
    using t by (simp add: i filter_map comp_def)
  show "count_list (fst (init ar spline self others)) Gathered = 1"
    using t by (simp add: i g)
qed

theorem C3_fsky_failure_after_reading_witness:
  "cosmo bare_catalog = None
   \<and> init exact table_spline bare_catalog [] = ([], Inl (ValueError msg_cosmo))
   \<and> cosmo survey \<noteq> None \<and> nbar survey = None \<and> fsky survey = None
   \<and> snd (init exact table_spline survey []) = Inl (ValueError msg_fsky)
   \<and> count_list (fst (init exact table_spline survey [])) ChunkRead = 1"
proof -
  have h0: "cosmo bare_catalog = None" by (simp add: bare_catalog_def)
  have h1: "cosmo survey \<noteq> None" by (simp add: survey_def)
  have h2: "nbar survey = None" by (simp add: survey_def bare_catalog_def)
  have h3: "fsky survey = None" by (simp add: survey_def bare_catalog_def)
  have d: "data survey False = one_chunk False" by (simp add: survey_def)
  from C3_fsky_failure_after_reading [of bare_catalog exact table_spline "[]"] h0
  have a: "init exact table_spline bare_catalog [] = ([], Inl (ValueError msg_cosmo))"
    by blast
  from C3_fsky_failure_after_reading [of survey exact table_spline "[]"] h1 h2 h3
  have b: "snd (init exact table_spline survey []) = Inl (ValueError msg_fsky)
           \<and> count_list (fst (init exact table_spline survey [])) ChunkRead
               = length (data survey False)"
    by blast
  from a b h0 h1 h2 h3 show ?thesis by (simp add: d one_chunk_def)
qed

text \<open>
  C3, as stated, fails: on a data source of one chunk the failure comes after the chunk
  has been read and accumulated and after the gather.
\<close>
theorem C3_chunks_read_before_failure_counterexample:
  "cosmo survey = Some linear_cosmology \<and> nbar survey = None \<and> fsky survey = None
   \<and> init exact table_spline survey [] = ([ChunkRead, Accumulated, Gathered], Inl (ValueError msg_fsky))"
proof -
  have h1: "cosmo survey = Some linear_cosmology" by (simp add: survey_def)
  have h2: "nbar survey = None" by (simp add: survey_def bare_catalog_def)
  have h3: "fsky survey = None" by (simp add: survey_def bare_catalog_def)
  have d: "data survey False = one_chunk False" by (simp add: survey_def)
  have "init exact table_spline survey []
          = (snd (scan_data linear_cosmology (map Position (data survey False)) (None, None, []))
               @ [Gathered], Inl (ValueError msg_fsky))"
    by (rule init_no_fsky [OF h1 h2 h3])
  also have "snd (scan_data linear_cosmology (map Position (data survey False)) (None, None, []))
               = [ChunkRead, Accumulated]"
    by (simp add: d one_chunk_def Let_def split: prod.splits)
  finally show ?thesis using h1 h2 h3 by simp
qed

subsection \<open>Properties of the nbar file loader\<close>

text \<open>
  C9. On an existing two-column file \<^verbatim>\<open>nbar_fromfile\<close> raises \<^verbatim>\<open>NameError\<close>
  instead of returning a curve, and on a missing file the message of its error holds
  the unformatted \<^verbatim>\<open>%s\<close>, not the path.
\<close>
theorem C9_nbar_fromfile_never_returns:
  "nbar_fromfile [''nbar.dat'' \<mapsto> [[1 / 10, 3 / 10000], [2 / 10, 4 / 10000]]] ''nbar.dat''
     = Inl (NameError (''name '' @ quoted ''InterpolatedUnivariateSpline'' @ '' is not defined''))
   \<and> nbar_fromfile Map.empty ''missing.dat'' = Inl (ValueError msg_nbar_file)
   \<and> \<not> sublist ''missing.dat'' msg_nbar_file
   \<and> sublist ''%s'' msg_nbar_file"
  by (simp add: nbar_fromfile_def msg_nbar_file_def quoted_def sublist_code)

subsection \<open>Properties of the read pass\<close>

lemma collect_Inr_iff: "collect rs = Inr vs \<longleftrightarrow> rs = map Inr vs"
proof (induction rs arbitrary: vs)
  case Nil
  show ?case by auto
next
  case (Cons r rs)
  show ?case
  proof (cases r)
    case (Inl e)
    then show ?thesis by (cases vs) auto
  next
    case (Inr v)
    show ?thesis
    proof (cases "collect rs")
      case (Inl e)
      with Cons [of "tl vs"] Inr show ?thesis by (cases vs) auto
    next
      case r: (Inr ws)
      with Cons [of ws] Cons [of "tl vs"] Inr show ?thesis by (cases vs) auto
    qed
  qed
qed

lemma select_columns_Inr:
  assumes "select_columns P columns = Inr item"
  shows "length item = length columns"
    and "j < length columns \<Longrightarrow> P (columns ! j) = Some (item ! j)"
proof -
  from assms have m: "map (\<lambda>key. case P key of None \<Rightarrow> Inl (KeyError key) | Some v \<Rightarrow> Inr v) columns
                       = map Inr item"
    by (simp add: select_columns_def collect_Inr_iff)
  from arg_cong [OF m, of length] show len: "length item = length columns" by simp
  assume j: "j < length columns"
  from arg_cong [OF m, of "\<lambda>xs. xs ! j"] j len
  have "(case P (columns ! j) of None \<Rightarrow> Inl (KeyError (columns ! j)) | Some v \<Rightarrow> Inr v) = Inr (item ! j)"
    by simp
  then show "P (columns ! j) = Some (item ! j)"
    by (cases "P (columns ! j)") simp_all
qed

lemma select_columns_valid:
  assumes "\<forall>key \<in> set columns. P key \<noteq> None"
  shows "\<exists>item. select_columns P columns = Inr item"
proof -
  have "map (\<lambda>key. case P key of None \<Rightarrow> Inl (KeyError key) | Some v \<Rightarrow> Inr v) columns
          = map Inr (map (\<lambda>key. the (P key)) columns)"
    using assms by (auto split: option.splits)
  then show ?thesis
    unfolding select_columns_def collect_Inr_iff by blast
qed

lemma fkp_weight_formula:
  assumes "compute_fkp_weights self" and "P0_fkp self = Some P0"
  shows "fkp_weight ar self nb weight
           = Inr (map (\<lambda>n. fdiv ar (Finite 1) (fadd ar (Finite 1) (fmul ar n (Finite P0)))) nb)"
  using assms by (simp add: fkp_weight_def)

lemma fkp_weight_no_P0:
  assumes "compute_fkp_weights self" and "P0_fkp self = None"
  shows "fkp_weight ar self nb weight = Inl (ValueError msg_P0_fkp)"
  using assms by (simp add: fkp_weight_def)

lemma read_chunk_ready:
  assumes "offset self = Some off" and "cosmo self = Some cd" and "nbar self = Some curve"
    and "nb = map curve (map (\<lambda>(ra, dec, redshift). Finite redshift) (Position c))"
  shows "read_chunk ar self columns c =
           (case fkp_weight ar self nb (Weight c) of
              Inl e \<Rightarrow> Inl e
            | Inr w \<Rightarrow>
                select_columns
                  [''Position'' \<mapsto> Rows (to_cartesian cd (Position c) (vmap uminus off)),
                   ''Weight'' \<mapsto> Values w, ''Nbar'' \<mapsto> Values nb]
                  columns)"
  using assms(1,2,3) unfolding assms(4) by (simp add: read_chunk_def Let_def del: map_map)

text \<open>The weights \<^verbatim>\<open>1. / (1. + nbar*self.P0_fkp)\<close> of the rows of a chunk.\<close>
lemma read_chunk_fkp_weight:
  assumes fkp: "compute_fkp_weights self" and P0: "P0_fkp self = Some P0"
    and off: "offset self = Some off" and cd: "cosmo self = Some cd"
    and curve: "nbar self = Some curve"
    and cols: "set columns \<subseteq> {''Position'', ''Weight'', ''Nbar''}"
  shows "\<exists>item. read_chunk ar self columns c = Inr item
           \<and> (\<forall>j < length columns. columns ! j = ''Weight'' \<longrightarrow>
                item ! j
                  = Values (map (\<lambda>(ra, dec, redshift).
                                   fdiv ar (Finite 1)
                                     (fadd ar (Finite 1) (fmul ar (curve (Finite redshift)) (Finite P0))))
                              (Position c)))"
proof -
  define nb where "nb = map curve (map (\<lambda>(ra, dec, redshift). Finite redshift) (Position c))"
  define w where "w = map (\<lambda>n. fdiv ar (Finite 1) (fadd ar (Finite 1) (fmul ar n (Finite P0)))) nb"
  define pos where "pos = to_cartesian cd (Position c) (vmap uminus off)"
  have rc: "read_chunk ar self columns c
              = select_columns [''Position'' \<mapsto> Rows pos, ''Weight'' \<mapsto> Values w, ''Nbar'' \<mapsto> Values nb]
                  columns"
    by (simp add: read_chunk_ready [OF off cd curve nb_def] fkp_weight_formula [OF fkp P0]
        w_def pos_def)
  have "\<exists>item. select_columns [''Position'' \<mapsto> Rows pos, ''Weight'' \<mapsto> Values w, ''Nbar'' \<mapsto> Values nb]
                 columns = Inr item"
    by (rule select_columns_valid) (use cols in auto)
  then obtain item where sel: "select_columns [''Position'' \<mapsto> Rows pos, ''Weight'' \<mapsto> Values w,
                                  ''Nbar'' \<mapsto> Values nb] columns = Inr item"
    by blast
  have weq: "w = map (\<lambda>(ra, dec, redshift).
                        fdiv ar (Finite 1) (fadd ar (Finite 1) (fmul ar (curve (Finite redshift)) (Finite P0))))
                   (Position c)"
    by (simp add: w_def nb_def comp_def case_prod_unfold)
  have "item ! j = Values w" if "j < length columns" and "columns ! j = ''Weight''" for j
    using select_columns_Inr(2) [OF sel that(1)] that(2) by simp
  with sel rc weq show ?thesis by auto
qed

lemma read_chunk_no_P0:
  assumes "compute_fkp_weights self" and "P0_fkp self = None"
    and "offset self = Some off" and "cosmo self = Some cd" and "nbar self = Some curve"
  shows "read_chunk ar self columns c = Inl (ValueError msg_P0_fkp)"
  by (simp add: read_chunk_ready [OF assms(3,4,5) refl] fkp_weight_no_P0 [OF assms(1,2)])

lemma read_loop_complete:
  assumes "\<forall>c \<in> set cs. \<exists>item. read_chunk ar self columns c = Inr item"
  shows "raised (read_loop ar self columns cs) = None
         \<and> consumed (read_loop ar self columns cs) = length cs
         \<and> map Inr (yielded (read_loop ar self columns cs)) = map (read_chunk ar self columns) cs"
  using assms
proof (induction cs)
  case Nil
  show ?case by simp
next
  case (Cons c cs)
  then obtain item where "read_chunk ar self columns c = Inr item" by auto
  with Cons show ?case by (simp add: Let_def)
qed

lemma read_valid_columns:
  assumes "source self = Some src" and "set columns \<subseteq> {''Position'', ''Weight'', ''Nbar''}"
  shows "read ar self columns full = read_loop ar self columns (src full)"
proof -
  from assms(2) have "\<not> list_ex (\<lambda>col. col \<notin> set valid) columns"
    by (auto simp: list_ex_iff valid_def)
  with assms(1) show ?thesis by (simp add: read_def)
qed

text \<open>
  C5. On the coordinating process of a constructed catalog with FKP weighting enabled
  and valid columns: with \<open>P0_fkp\<close> given, the pass yields one item per chunk and the
  Weight column of every item is \<open>1 / (1 + nbar(z) * P0_fkp)\<close> over the rows of its
  chunk, \<open>nbar\<close> being the density curve at the redshift of the row; with \<open>P0_fkp\<close>
  absent the step that handles a chunk raises the \<^verbatim>\<open>ValueError\<close> on every chunk, so
  the pass fails at its first chunk with nothing yielded.
\<close>
theorem C5_fkp_weights:
  assumes src: "source self = Some src" and fkp: "compute_fkp_weights self"
    and off: "offset self = Some off" and cd: "cosmo self = Some cd"
    and curve: "nbar self = Some curve"
    and cols: "set columns \<subseteq> {''Position'', ''Weight'', ''Nbar''}"
  shows "(P0_fkp self = Some P0 \<longrightarrow>
            raised (read ar self columns full) = None
            \<and> length (yielded (read ar self columns full)) = length (src full)
            \<and> (\<forall>i < length (src full). \<forall>j < length columns.
                  columns ! j = ''Weight'' \<longrightarrow>
                    yielded (read ar self columns full) ! i ! j
                      = Values (map (\<lambda>(ra, dec, redshift).
                                       fdiv ar (Finite 1)
                                         (fadd ar (Finite 1)
                                            (fmul ar (curve (Finite redshift)) (Finite P0))))
                                 (Position (src full ! i)))))
       \<and> (P0_fkp self = None \<longrightarrow>
            (\<forall>c. read_chunk ar self columns c = Inl (ValueError msg_P0_fkp))
            \<and> (src full \<noteq> [] \<longrightarrow>
                 read ar self columns full
                   = \<lparr>yielded = [], consumed = 1, raised = Some (ValueError msg_P0_fkp)\<rparr>))"
proof -
  note r = read_valid_columns [OF src cols, of ar full]
  have given: "raised (read ar self columns full) = None
            \<and> length (yielded (read ar self columns full)) = length (src full)
            \<and> (\<forall>i < length (src full). \<forall>j < length columns.
                  columns ! j = ''Weight'' \<longrightarrow>
                    yielded (read ar self columns full) ! i ! j
                      = Values (map (\<lambda>(ra, dec, redshift).
                                       fdiv ar (Finite 1)
                                         (fadd ar (Finite 1)
                                            (fmul ar (curve (Finite redshift)) (Finite P0))))
                                 (Position (src full ! i))))"
    if P0: "P0_fkp self = Some P0"
  proof -
    note w = read_chunk_fkp_weight [OF fkp P0 off cd curve cols, of ar]
    from w have all: "\<forall>c \<in> set (src full). \<exists>item. read_chunk ar self columns c = Inr item"
      by blast
    note lc = read_loop_complete [OF all]
    from lc have m: "map Inr (yielded (read ar self columns full))
                       = map (read_chunk ar self columns) (src full)"
      by (simp add: r)
    from arg_cong [OF m, of length]
    have len: "length (yielded (read ar self columns full)) = length (src full)" by simp
    have item: "yielded (read ar self columns full) ! i ! j
                  = Values (map (\<lambda>(ra, dec, redshift).
                                   fdiv ar (Finite 1)
                                     (fadd ar (Finite 1)
                                        (fmul ar (curve (Finite redshift)) (Finite P0))))
                             (Position (src full ! i)))"
      if i: "i < length (src full)" and j: "j < length columns" and key: "columns ! j = ''Weight''"
      for i j
    proof -
      from arg_cong [OF m, of "\<lambda>xs. xs ! i"] i len
      have "read_chunk ar self columns (src full ! i)
              = Inr (yielded (read ar self columns full) ! i)"
        by simp
      with w [of "src full ! i"] j key show ?thesis by auto
    qed
    from lc len item show ?thesis by (simp add: r)
  qed
  have absent: "read_chunk ar self columns c = Inl (ValueError msg_P0_fkp)"
    if "P0_fkp self = None" for c
    by (rule read_chunk_no_P0 [OF fkp that off cd curve])
  have fails: "read ar self columns full
              = \<lparr>yielded = [], consumed = 1, raised = Some (ValueError msg_P0_fkp)\<rparr>"
    if "P0_fkp self = None" and "src full \<noteq> []"
  proof -
    from that(2) obtain c cs where cs: "src full = c # cs" by (cases "src full") auto
    from absent [OF that(1), of c] show ?thesis by (simp add: r cs)
  qed
  from given absent fails show ?thesis by blast
qed

theorem C5_fkp_weights_witness:
  "source fkp_survey = Some one_chunk \<and> compute_fkp_weights fkp_survey
   \<and> P0_fkp fkp_survey = Some 1000
   \<and> raised (read exact fkp_survey [''Position'', ''Weight''] False) = None
   \<and> length (yielded (read exact fkp_survey [''Position'', ''Weight''] False)) = 1
   \<and> yielded (read exact fkp_survey [''Position'', ''Weight''] False) ! 0 ! 1 = Values [Finite (1 / 2)]
   \<and> P0_fkp (fkp_survey\<lparr>P0_fkp := None\<rparr>) = None \<and> one_chunk False \<noteq> []
   \<and> read exact (fkp_survey\<lparr>P0_fkp := None\<rparr>) [''Position'', ''Weight''] False
        = \<lparr>yielded = [], consumed = 1, raised = Some (ValueError msg_P0_fkp)\<rparr>"
proof -
  have h1: "source fkp_survey = Some one_chunk" "compute_fkp_weights fkp_survey"
    "offset fkp_survey = Some (0, 0, 0)" "cosmo fkp_survey = Some linear_cosmology"
    "nbar fkp_survey = Some (\<lambda>s. Finite (1 / 1000))"
    by (simp_all add: fkp_survey_def survey_def)
  have h2: "source (fkp_survey\<lparr>P0_fkp := None\<rparr>) = Some one_chunk"
    "compute_fkp_weights (fkp_survey\<lparr>P0_fkp := None\<rparr>)"
    "offset (fkp_survey\<lparr>P0_fkp := None\<rparr>) = Some (0, 0, 0)"
    "cosmo (fkp_survey\<lparr>P0_fkp := None\<rparr>) = Some linear_cosmology"
    "nbar (fkp_survey\<lparr>P0_fkp := None\<rparr>) = Some (\<lambda>s. Finite (1 / 1000))"
    by (simp_all add: fkp_survey_def survey_def)
  have c: "set [''Position'', ''Weight''] \<subseteq> {''Position'', ''Weight'', ''Nbar''}" by simp
  have p: "P0_fkp fkp_survey = Some 1000" by (simp add: fkp_survey_def)
  have q: "P0_fkp (fkp_survey\<lparr>P0_fkp := None\<rparr>) = None" by simp
  have o: "one_chunk False = [\<lparr>Position = [(0, 0, 1)], Weight = [1]\<rparr>]" by (simp add: one_chunk_def)
  note a = C5_fkp_weights [OF h1 c, of 1000 exact False, THEN conjunct1, rule_format, OF p]
  note b = C5_fkp_weights [OF h2 c, of 0 exact False, THEN conjunct2, rule_format, OF q]
  from a o have a2: "raised (read exact fkp_survey [''Position'', ''Weight''] False) = None"
    and a3: "length (yielded (read exact fkp_survey [''Position'', ''Weight''] False)) = 1"
    by simp_all
  have "yielded (read exact fkp_survey [''Position'', ''Weight''] False) ! 0 ! 1
      = Values (map (\<lambda>(ra, dec, redshift).
                       fdiv exact (Finite 1)
                         (fadd exact (Finite 1) (fmul exact (Finite (1 / 1000)) (Finite 1000))))
                 (Position (one_chunk False ! 0)))"
    by (rule a [THEN conjunct2, THEN conjunct2, rule_format]) (simp_all add: o)
  then have a1: "yielded (read exact fkp_survey [''Position'', ''Weight''] False) ! 0 ! 1
                   = Values [Finite (1 / 2)]"
    by (simp add: o exact_def)
  from b o have b1: "read exact (fkp_survey\<lparr>P0_fkp := None\<rparr>) [''Position'', ''Weight''] False
        = \<lparr>yielded = [], consumed = 1, raised = Some (ValueError msg_P0_fkp)\<rparr>"
    by simp
  from h1(1,2) p a1 a2 a3 q o b1 show ?thesis by simp
qed

subsection \<open>Properties of the histogram\<close>













subsection \<open>Properties of Scott's rule and of the density\<close>





lemma scotts_bin_width_no_count:
  assumes "zs \<noteq> []" and "bin_count ar zs = None"
  shows "scotts_bin_width ar zs = Inl ArangeError"
proof -
  from assms(2) have "\<forall>m. bin_number ar zs \<noteq> Finite m"
    by (auto simp: bin_count_def split: f64.splits)
  then have "arange_plus1 (bin_number ar zs) = Inl ArangeError"
    by (cases "bin_number ar zs") (simp_all add: arange_plus1_def)
  then show ?thesis
    unfolding scotts_bin_width_def Let_def bin_width_def [symmetric] bin_number_def [symmetric]
    using assms(1) by simp
qed



text \<open>In a monotone arithmetic a finite bin width that is not negative gives non-decreasing edges.\<close>
lemma edges_sorted:
  assumes "monotone ar" and "bin_width ar zs = Finite d" and "0 \<le> d"
  shows "sorted_wrt f64_le (map (bin_edge ar zs) [0..<m])"
proof -
  have "f64_le (bin_edge ar zs j) (bin_edge ar zs k)" if "j < k" for j k
  proof -
    from assms(1,3) that
    have "f64_le (fmul ar (Finite d) (Finite (real j))) (fmul ar (Finite d) (Finite (real k)))"
      unfolding monotone_def by simp
    with assms(1) show ?thesis
      unfolding monotone_def bin_edge_def assms(2) by blast
  qed
  then show ?thesis
    by (simp add: sorted_wrt_iff_nth_less)
qed

lemma monotone_exact: "monotone exact"
proof -
  have add: "f64_le (exact_add (Finite c) a) (exact_add (Finite c) b)" if "f64_le a b" for c a b
    using that by (cases a; cases b) simp_all
  have mul: "f64_le (exact_mul (Finite d) (Finite (real j))) (exact_mul (Finite d) (Finite (real k)))"
    if "0 \<le> d" and "j \<le> k" for d and j k :: nat
    using that by (simp add: mult_left_mono)
  from add mul show ?thesis
    unfolding monotone_def by (simp add: exact_def)
qed


subsection \<open>The estimator on two samples, in the arithmetic that does not round\<close>



















end
